theory Spec2Isabelle
  imports Complex_Main
begin

section \<open>Python values used by the program\<close>

text \<open>
  A Python \<open>str\<close> is modelled as a \<open>string\<close> whose characters stand for the code points
  below 256, one \<open>char\<close> each. Exceptions are values: a function of the source that can
  raise returns \<open>exn + 'a\<close>, with \<open>Inl\<close> for the exception raised.
\<close>

datatype exn =
    ValueError string   \<comment> \<open>raised by \<open>int()\<close> or \<open>float()\<close>; carries the rejected literal\<close>
  | IndexError          \<comment> \<open>list index out of range\<close>
  | KeyError string     \<comment> \<open>dictionary lookup of a missing key\<close>
  | EOFError            \<comment> \<open>\<open>input()\<close> at the end of standard input\<close>

subsection \<open>String methods\<close>

definition lower_char :: "char \<Rightarrow> char" where
  "lower_char c =
     (let n = (of_char c :: nat)
      in if (65 \<le> n \<and> n \<le> 90) \<or> (192 \<le> n \<and> n \<le> 222 \<and> n \<noteq> 215)
         then char_of (n + 32) else c)"

definition py_lower :: "string \<Rightarrow> string" where
  "py_lower s = map lower_char s"

definition starts_with :: "string \<Rightarrow> string \<Rightarrow> bool" where
  "starts_with s p = (take (length p) s = p)"

text \<open>\<open>sub in s\<close> on strings: \<open>sub\<close> occurs somewhere in \<open>s\<close>.\<close>

fun py_in :: "string \<Rightarrow> string \<Rightarrow> bool" where
  "py_in sub [] = (sub = [])"
| "py_in sub (c # cs) = (starts_with (c # cs) sub \<or> py_in sub cs)"

text \<open>
  \<open>s.replace(old, new)\<close>: every occurrence of \<open>old\<close>, found from the left without
  overlap, is replaced. With an empty \<open>old\<close> Python puts \<open>new\<close> around every character.
\<close>

function py_replace :: "string \<Rightarrow> string \<Rightarrow> string \<Rightarrow> string" where
  "py_replace old new s =
     (if old = [] then new @ concat (map (\<lambda>c. c # new) s)
      else if s = [] then []
      else if starts_with s old then new @ py_replace old new (drop (length old) s)
      else hd s # py_replace old new (tl s))"
  by pat_completeness auto
termination
  by (relation "measure (\<lambda>(old, new, s). length s)") auto

declare py_replace.simps [simp del]

subsection \<open>Numbers and their text\<close>

definition is_digit :: "char \<Rightarrow> bool" where
  "is_digit c = (48 \<le> (of_char c :: nat) \<and> (of_char c :: nat) \<le> 57)"

definition digit_val :: "char \<Rightarrow> nat" where
  "digit_val c = (of_char c :: nat) - 48"

text \<open>The value of a digit string, most significant digit first.\<close>

definition digits_val :: "string \<Rightarrow> nat" where
  "digits_val ds = foldl (\<lambda>acc c. 10 * acc + digit_val c) 0 ds"

text \<open>
  \<open>float(s)\<close>, on plain digit strings only. The program applies \<open>float\<close> to what is left
  of a catalog size string once the marker and the unit are removed; every such string
  is a short digit string (lemma \<open>catalog_sizes_parse\<close> below), whose value a double holds
  exactly. The sums of these values stay below \<open>2 ^ 53\<close> and the division by 1024 is a
  division by a power of two, so the program's floating-point arithmetic is exact on the
  catalog and is modelled by rational arithmetic. \<open>None\<close> stands for every other
  literal: \<open>float\<close> rejects some of them with ValueError and accepts others (a sign, a
  decimal point, an exponent), and none of them reaches it in this program.
\<close>

definition py_float :: "string \<Rightarrow> rat option" where
  "py_float s = (if s \<noteq> [] \<and> list_all is_digit s then Some (of_nat (digits_val s)) else None)"

definition digit_char :: "nat \<Rightarrow> char" where
  "digit_char d = char_of (48 + d)"

fun show_nat :: "nat \<Rightarrow> string" where
  "show_nat n = (if n < 10 then [digit_char n] else show_nat (n div 10) @ [digit_char (n mod 10)])"

declare show_nat.simps [simp del]

text \<open>
  Python formats a float with \<open>.1f\<close> or \<open>.0f\<close> by rounding its exact value to the
  nearest decimal of that precision, a tie going to the even neighbour. Only
  non-negative values are formatted here.
\<close>

definition round_half_even :: "rat \<Rightarrow> int" where
  "round_half_even x =
     (let f = \<lfloor>x\<rfloor>; r = x - of_int f
      in if r < 1 / 2 then f
         else if 1 / 2 < r then f + 1
         else if even f then f else f + 1)"

definition format_1f :: "rat \<Rightarrow> string" where
  "format_1f x = (let n = nat (round_half_even (x * 10)) in show_nat (n div 10) @ ''.'' @ show_nat (n mod 10))"

definition format_0f :: "rat \<Rightarrow> string" where
  "format_0f x = show_nat (nat (round_half_even x))"

section \<open>The catalog\<close>

text \<open>
  \<open>self.libraries\<close>: a dictionary of dictionaries, in insertion order, which is the order
  Python iterates them in.
\<close>

definition libraries :: "(string \<times> (string \<times> string) list) list" where
  "libraries =
     [(''1_core_frameworks'',
        [(''tensorflow'', ''~2GB''),
         (''torch'', ''~4GB''),
         (''scikit-learn'', ''~300MB''),
         (''keras'', ''~100MB''),
         (''jax'', ''~600MB''),
         (''xgboost'', ''~200MB'')]),
      (''2_visualization'',
        [(''matplotlib'', ''~50MB''),
         (''plotly'', ''~100MB''),
         (''seaborn'', ''~20MB''),
         (''bokeh'', ''~80MB''),
         (''altair'', ''~30MB'')]),
      (''3_nlp'',
        [(''transformers'', ''~5GB''),
         (''spacy'', ''~1GB''),
         (''nltk'', ''~500MB''),
         (''gensim'', ''~200MB''),
         (''sentence-transformers'', ''~1GB'')])]"

definition catalog_entries :: "(string \<times> string) list" where
  "catalog_entries = concat (map snd libraries)"

definition catalog_names :: "string set" where
  "catalog_names = set (map fst catalog_entries)"

section \<open>The size calculator\<close>

text \<open>The body of the inner loop of \<open>calculate_size\<close> for one size string: its megabytes.\<close>

definition size_mb :: "string \<Rightarrow> exn + rat" where
  "size_mb sz =
     (let size_str = py_lower sz
      in if py_in ''gb'' size_str
         then (case py_float (py_replace ''gb'' '''' (py_replace ''~'' '''' size_str)) of
                 None \<Rightarrow> Inl (ValueError (py_replace ''gb'' '''' (py_replace ''~'' '''' size_str)))
               | Some x \<Rightarrow> Inr (x * 1024))
         else (case py_float (py_replace ''mb'' '''' (py_replace ''~'' '''' size_str)) of
                 None \<Rightarrow> Inl (ValueError (py_replace ''mb'' '''' (py_replace ''~'' '''' size_str)))
               | Some x \<Rightarrow> Inr x))"

text \<open>The inner loop, over the items of one category, with the running total.\<close>

fun sum_category :: "string set \<Rightarrow> (string \<times> string) list \<Rightarrow> rat \<Rightarrow> exn + rat" where
  "sum_category libs [] total_mb = Inr total_mb"
| "sum_category libs ((lib, sz) # rest) total_mb =
     (if lib \<in> libs
      then (case size_mb sz of
              Inl e \<Rightarrow> Inl e
            | Inr mb \<Rightarrow> sum_category libs rest (total_mb + mb))
      else sum_category libs rest total_mb)"

text \<open>The outer loop, over \<open>self.libraries.values()\<close>.\<close>

fun sum_categories :: "string set \<Rightarrow> (string \<times> string) list list \<Rightarrow> rat \<Rightarrow> exn + rat" where
  "sum_categories libs [] total_mb = Inr total_mb"
| "sum_categories libs (category # rest) total_mb =
     (case sum_category libs category total_mb of
        Inl e \<Rightarrow> Inl e
      | Inr t \<Rightarrow> sum_categories libs rest t)"

definition calculate_size :: "string set \<Rightarrow> exn + string" where
  "calculate_size libs =
     (case sum_categories libs (map snd libraries) 0 of
        Inl e \<Rightarrow> Inl e
      | Inr total_mb \<Rightarrow>
          Inr (if 1024 < total_mb
               then ''~'' @ format_1f (total_mb / 1024) @ ''GB''
               else ''~'' @ format_0f total_mb @ ''MB''))"

definition calculate_category_size :: "string \<Rightarrow> exn + string" where
  "calculate_category_size category =
     (case map_of libraries category of
        None \<Rightarrow> Inl (KeyError category)
      | Some items \<Rightarrow> calculate_size (set (map fst items)))"

section \<open>The world the program acts on\<close>

text \<open>
  What the program prints is kept as a list of outputs in order. The three display
  methods print fixed text, kept as one output each; \<open>print\<close> and the prompt of
  \<open>input\<close> keep their text.
\<close>

datatype console =
    MenuText                \<comment> \<open>everything \<open>display_menu\<close> prints\<close>
  | CategoriesText          \<comment> \<open>everything \<open>display_categories\<close> prints\<close>
  | LibrariesText string    \<comment> \<open>everything \<open>display_libraries\<close> prints for a category\<close>
  | Printed string          \<comment> \<open>one \<open>print\<close> call\<close>
  | Prompt string           \<comment> \<open>the prompt of one \<open>input\<close> call\<close>

record world =
  stdin :: "string list"       \<comment> \<open>the lines not yet read\<close>
  stdout :: "console list"      \<comment> \<open>what has been printed\<close>
  pip_calls :: "string list"   \<comment> \<open>the package of each \<open>pip install\<close> invocation made\<close>
  log_file :: "string list"    \<comment> \<open>the lines of the session log file\<close>

text \<open>
  What one \<open>subprocess.check_call\<close> of pip does to the program: it returns, raises
  CalledProcessError (a non-zero exit status) or raises another exception (the
  interpreter could not be started, say); the string is \<open>str(e)\<close>. An interrupt
  from the keyboard is no outcome of the invocation and is left out.
\<close>

datatype pip_result = Installed | CalledProcessError string | OtherException string

text \<open>
  What the program does not decide: the outcome of each pip invocation (which may depend
  on the invocations made before), the order in which Python iterates a set of names,
  and the interpreter's limit on the digits \<open>int()\<close> converts (0 for no limit).
\<close>

record env =
  pip :: "string list \<Rightarrow> string \<Rightarrow> pip_result"
  set_iter :: "string set \<Rightarrow> string list"
  max_str_digits :: nat

definition print :: "string \<Rightarrow> world \<Rightarrow> world" where
  "print s w = w\<lparr>stdout := stdout w @ [Printed s]\<rparr>"

text \<open>\<open>input(prompt)\<close>: the prompt is written, then a line is read; EOFError when none is left.\<close>

definition py_input :: "string \<Rightarrow> world \<Rightarrow> (exn + string) \<times> world" where
  "py_input prompt w =
     (case stdin w of
        [] \<Rightarrow> (Inl EOFError, w\<lparr>stdout := stdout w @ [Prompt prompt]\<rparr>)
      | l # ls \<Rightarrow> (Inr l, w\<lparr>stdin := ls, stdout := stdout w @ [Prompt prompt]\<rparr>))"

subsection \<open>\<open>int()\<close> of a string\<close>

text \<open>
  \<open>int(s)\<close> skips white space at both ends (tab to carriage return, the space, and
  the two spaces above 127), reads an optional sign, then decimal digits in which
  single underscores may separate digits. Anything else, and a digit string longer
  than the interpreter's limit (checked above 640 digits), raises ValueError: \<open>None\<close>
  here.
\<close>

definition is_space :: "char \<Rightarrow> bool" where
  "is_space c =
     (let n = (of_char c :: nat) in (9 \<le> n \<and> n \<le> 13) \<or> n = 32 \<or> n = 133 \<or> n = 160)"

definition py_strip :: "string \<Rightarrow> string" where
  "py_strip s = rev (dropWhile is_space (rev (dropWhile is_space s)))"

fun digit_groups :: "string \<Rightarrow> bool" where
  "digit_groups [] = False"
| "digit_groups [c] = is_digit c"
| "digit_groups (c # d # cs) =
     (is_digit c \<and> (if d = CHR ''_'' then digit_groups cs else digit_groups (d # cs)))"

definition py_int :: "nat \<Rightarrow> string \<Rightarrow> int option" where
  "py_int limit s =
     (let t = py_strip s;
          negative = starts_with t ''-'';
          body = (if starts_with t ''-'' \<or> starts_with t ''+'' then drop 1 t else t);
          ds = filter (\<lambda>c. c \<noteq> CHR ''_'') body
      in if \<not> digit_groups body then None
         else if 640 < length ds \<and> 0 < limit \<and> limit < length ds then None
         else Some (if negative then - int (digits_val ds) else int (digits_val ds)))"

text \<open>\<open>xs[i]\<close>: a negative index counts from the end; out of range raises IndexError.\<close>

definition py_index :: "'a list \<Rightarrow> int \<Rightarrow> exn + 'a" where
  "py_index xs i =
     (let n = int (length xs)
      in if 0 \<le> i \<and> i < n then Inr (xs ! nat i)
         else if - n \<le> i \<and> i < 0 then Inr (xs ! nat (i + n))
         else Inl IndexError)"

section \<open>The installer\<close>

text \<open>
  The body of the loop of \<open>install_libraries\<close>. Both handlers print; neither they nor
  the \<open>try\<close> block call the logging module, so \<open>log_file\<close> is not written.
\<close>

definition install_one :: "env \<Rightarrow> world \<Rightarrow> string \<Rightarrow> world" where
  "install_one e w lib =
     (let w1 = print (CHR 0x0A # ''Installing '' @ lib @ ''...'') w;
          r = pip e (pip_calls w1) lib;
          w2 = w1\<lparr>pip_calls := pip_calls w1 @ [lib]\<rparr>
      in case r of
           Installed \<Rightarrow> print (''Successfully installed '' @ lib) w2
         | CalledProcessError msg \<Rightarrow> print (''Error installing '' @ lib @ '': '' @ msg) w2
         | OtherException msg \<Rightarrow> print (''Unexpected error installing '' @ lib @ '': '' @ msg) w2)"

definition install_libraries :: "env \<Rightarrow> string set \<Rightarrow> world \<Rightarrow> world" where
  "install_libraries e selected w = foldl (install_one e) w (set_iter e selected)"

section \<open>The setup script\<close>

definition requirements :: "string list" where
  "requirements = [''colorama'', ''logging'']"

text \<open>The body of the loop of \<open>install_requirements\<close>: one handler, for every Exception.\<close>

definition install_requirement :: "env \<Rightarrow> world \<Rightarrow> string \<Rightarrow> world" where
  "install_requirement e w package =
     (let w1 = print (CHR 0x0A # ''Installing '' @ package @ ''...'') w;
          r = pip e (pip_calls w1) package;
          w2 = w1\<lparr>pip_calls := pip_calls w1 @ [package]\<rparr>
      in case r of
           Installed \<Rightarrow> w2
         | CalledProcessError msg \<Rightarrow> print (''Error installing '' @ package @ '': '' @ msg) w2
         | OtherException msg \<Rightarrow> print (''Error installing '' @ package @ '': '' @ msg) w2)"

definition install_requirements :: "env \<Rightarrow> world \<Rightarrow> world" where
  "install_requirements e w =
     print (CHR 0x0A # ''Setup complete! Run '' @ [CHR 0x27] @ ''python lib-collect.py'' @ [CHR 0x27] @ '' to start'')
       (foldl (install_requirement e) (print ''Setting up PyLibPro...'' w) requirements)"

section \<open>The interactive loop\<close>

text \<open>
  Each \<open>while True\<close> loop of \<open>run\<close> is a function of the world, and its body a
  definition that says how the iteration ends: the loop goes round again, a \<open>break\<close>
  leaves it, or an exception leaves it and every loop around it.
\<close>

datatype ctl = Continue | Break | Raise exn

lemma stdin_print [simp]: "stdin (print s w) = stdin w"
  by (simp add: print_def)

lemma stdin_install_one [simp]: "stdin (install_one e w lib) = stdin w"
  by (simp add: install_one_def Let_def split: pip_result.splits)

lemma stdin_install_libraries [simp]: "stdin (install_libraries e selected w) = stdin w"
proof -
  have "stdin (foldl (install_one e) w xs) = stdin w" for xs
    by (induction xs arbitrary: w) simp_all
  then show ?thesis
    by (simp add: install_libraries_def)
qed

lemma py_input_Inr:
  "py_input prompt w = (Inr l, w') \<Longrightarrow> stdin w = l # stdin w'"
  by (auto simp: py_input_def split: list.splits)

lemma py_input_Inl:
  "py_input prompt w = (Inl x, w') \<Longrightarrow> stdin w' = stdin w"
  by (auto simp: py_input_def split: list.splits)

subsection \<open>The library menu\<close>

definition display_libraries :: "string \<Rightarrow> world \<Rightarrow> (exn + (string \<times> string) list) \<times> world" where
  "display_libraries category w =
     (case map_of libraries category of
        None \<Rightarrow> (Inl (KeyError category), w)
      | Some items \<Rightarrow> (Inr items, w\<lparr>stdout := stdout w @ [LibrariesText category]\<rparr>))"

definition library_menu_body :: "env \<Rightarrow> string \<Rightarrow> world \<Rightarrow> ctl \<times> world" where
  "library_menu_body e category w =
     (case display_libraries category w of
        (Inl x, w1) \<Rightarrow> (Raise x, w1)
      | (Inr libs, w1) \<Rightarrow>
          (case py_input (CHR 0x0A # ''Select library (0 to go back): '') w1 of
             (Inl x, w2) \<Rightarrow> (Raise x, w2)
           | (Inr lib_choice, w2) \<Rightarrow>
               if lib_choice = ''0'' then (Break, w2)
               else
                 (case py_int (max_str_digits e) lib_choice of
                    None \<Rightarrow> (Continue, print ''Invalid input'' w2)
                  | Some n \<Rightarrow>
                      let idx = n - 1
                      in if 0 \<le> idx \<and> idx < int (length libs)
                         then
                           let lib_name = fst (libs ! nat idx)
                           in (case py_input (CHR 0x0A # ''Install '' @ lib_name @ ''? Size: ''
                                                @ snd (libs ! nat idx) @ '' (y/n): '') w2 of
                                 (Inl x, w3) \<Rightarrow> (Raise x, w3)
                               | (Inr answer, w3) \<Rightarrow>
                                   if py_lower answer = ''y''
                                   then (Continue, install_libraries e {lib_name} w3)
                                   else (Continue, w3))
                         else (Continue, w2))))"

lemma library_menu_body_reads:
  "library_menu_body e category w = (Continue, w') \<Longrightarrow> length (stdin w') < length (stdin w)"
  by (auto simp: library_menu_body_def display_libraries_def Let_def
      split: option.splits prod.splits sum.splits if_splits
      dest!: py_input_Inr py_input_Inl)

lemma library_menu_body_stdin:
  "library_menu_body e category w = (c, w') \<Longrightarrow> length (stdin w') \<le> length (stdin w)"
  by (auto simp: library_menu_body_def display_libraries_def Let_def
      split: option.splits prod.splits sum.splits if_splits
      dest!: py_input_Inr py_input_Inl)

function library_menu :: "env \<Rightarrow> string \<Rightarrow> world \<Rightarrow> exn option \<times> world" where
  "library_menu e category w =
     (case library_menu_body e category w of
        (Continue, w') \<Rightarrow> library_menu e category w'
      | (Break, w') \<Rightarrow> (None, w')
      | (Raise x, w') \<Rightarrow> (Some x, w'))"
  by pat_completeness auto
termination
  by (relation "measure (\<lambda>(e, category, w). length (stdin w))")
    (auto dest: library_menu_body_reads [OF sym])

declare library_menu.simps [simp del]

lemma library_menu_stdin:
  "library_menu e category w = (r, w') \<Longrightarrow> length (stdin w') \<le> length (stdin w)"
proof (induction e category w rule: library_menu.induct)
  case (1 e category w)
  obtain c w1 where b: "library_menu_body e category w = (c, w1)"
    by (cases "library_menu_body e category w")
  from library_menu_body_stdin [OF b] have le: "length (stdin w1) \<le> length (stdin w)" .
  show ?case
  proof (cases c)
    case Continue
    with b "1.prems" have "library_menu e category w1 = (r, w')"
      by (simp add: library_menu.simps [of e category w])
    with "1.IH" b Continue have "length (stdin w') \<le> length (stdin w1)"
      by simp
    with le show ?thesis by simp
  next
    case Break
    with b "1.prems" le show ?thesis
      by (simp add: library_menu.simps [of e category w])
  next
    case (Raise x)
    with b "1.prems" le show ?thesis
      by (simp add: library_menu.simps [of e category w])
  qed
qed

subsection \<open>The category menus\<close>

definition display_categories :: "world \<Rightarrow> world" where
  "display_categories w = w\<lparr>stdout := stdout w @ [CategoriesText]\<rparr>"

text \<open>
  The category key built from the answer: \<open>int\<close> of the answer may raise ValueError and
  the index into the list of keys may raise IndexError, both before the key is looked up.
\<close>

definition select_category :: "env \<Rightarrow> string \<Rightarrow> exn + string" where
  "select_category e cat_choice =
     (case py_int (max_str_digits e) cat_choice of
        None \<Rightarrow> Inl (ValueError cat_choice)
      | Some n \<Rightarrow>
          (case py_index (map fst libraries) (n - 1) of
             Inl x \<Rightarrow> Inl x
           | Inr key \<Rightarrow> Inr (cat_choice @ ''_'' @ drop 2 key)))"

text \<open>The body of the loop under main-menu choice 2: install a whole category.\<close>

definition category_install_body :: "env \<Rightarrow> world \<Rightarrow> ctl \<times> world" where
  "category_install_body e w =
     (case py_input (CHR 0x0A # ''Select category (0-3): '') (display_categories w) of
        (Inl x, w1) \<Rightarrow> (Raise x, w1)
      | (Inr cat_choice, w1) \<Rightarrow>
          if cat_choice = ''0'' then (Break, w1)
          else
            (case select_category e cat_choice of
               Inl x \<Rightarrow> (Raise x, w1)
             | Inr category \<Rightarrow>
                 (case map_of libraries category of
                    None \<Rightarrow> (Continue, w1)
                  | Some items \<Rightarrow>
                      (case calculate_category_size category of
                         Inl x \<Rightarrow> (Raise x, w1)
                       | Inr sz \<Rightarrow>
                           (case py_input (CHR 0x0A # ''Install '' @ drop 2 category @ ''? Size: ''
                                             @ sz @ '' (y/n): '') w1 of
                              (Inl x, w2) \<Rightarrow> (Raise x, w2)
                            | (Inr answer, w2) \<Rightarrow>
                                if py_lower answer = ''y''
                                then (Continue, install_libraries e (set (map fst items)) w2)
                                else (Continue, w2))))))"

lemma category_install_body_reads:
  "category_install_body e w = (Continue, w') \<Longrightarrow> length (stdin w') < length (stdin w)"
  by (auto simp: category_install_body_def display_categories_def
      split: option.splits prod.splits sum.splits if_splits
      dest!: py_input_Inr py_input_Inl)

lemma category_install_body_stdin:
  "category_install_body e w = (c, w') \<Longrightarrow> length (stdin w') \<le> length (stdin w)"
  by (auto simp: category_install_body_def display_categories_def
      split: option.splits prod.splits sum.splits if_splits
      dest!: py_input_Inr py_input_Inl)

function category_install_menu :: "env \<Rightarrow> world \<Rightarrow> exn option \<times> world" where
  "category_install_menu e w =
     (case category_install_body e w of
        (Continue, w') \<Rightarrow> category_install_menu e w'
      | (Break, w') \<Rightarrow> (None, w')
      | (Raise x, w') \<Rightarrow> (Some x, w'))"
  by pat_completeness auto
termination
  by (relation "measure (\<lambda>(e, w). length (stdin w))")
    (auto dest: category_install_body_reads [OF sym])

declare category_install_menu.simps [simp del]

text \<open>The body of the loop under main-menu choice 3: go to the library menu of a category.\<close>

definition category_individual_body :: "env \<Rightarrow> world \<Rightarrow> ctl \<times> world" where
  "category_individual_body e w =
     (case py_input (CHR 0x0A # ''Select category (0-3): '') (display_categories w) of
        (Inl x, w1) \<Rightarrow> (Raise x, w1)
      | (Inr cat_choice, w1) \<Rightarrow>
          if cat_choice = ''0'' then (Break, w1)
          else
            (case select_category e cat_choice of
               Inl x \<Rightarrow> (Raise x, w1)
             | Inr category \<Rightarrow>
                 (case map_of libraries category of
                    None \<Rightarrow> (Continue, w1)
                  | Some items \<Rightarrow>
                      (case library_menu e category w1 of
                         (Some x, w2) \<Rightarrow> (Raise x, w2)
                       | (None, w2) \<Rightarrow> (Continue, w2)))))"

lemma category_individual_body_reads:
  "category_individual_body e w = (Continue, w') \<Longrightarrow> length (stdin w') < length (stdin w)"
  by (auto simp: category_individual_body_def display_categories_def
      split: option.splits prod.splits sum.splits if_splits
      dest!: py_input_Inr py_input_Inl library_menu_stdin)

lemma category_individual_body_stdin:
  "category_individual_body e w = (c, w') \<Longrightarrow> length (stdin w') \<le> length (stdin w)"
  by (auto simp: category_individual_body_def display_categories_def
      split: option.splits prod.splits sum.splits if_splits
      dest!: py_input_Inr py_input_Inl library_menu_stdin)

function category_individual_menu :: "env \<Rightarrow> world \<Rightarrow> exn option \<times> world" where
  "category_individual_menu e w =
     (case category_individual_body e w of
        (Continue, w') \<Rightarrow> category_individual_menu e w'
      | (Break, w') \<Rightarrow> (None, w')
      | (Raise x, w') \<Rightarrow> (Some x, w'))"
  by pat_completeness auto
termination
  by (relation "measure (\<lambda>(e, w). length (stdin w))")
    (auto dest: category_individual_body_reads [OF sym])

declare category_individual_menu.simps [simp del]

lemma category_install_menu_stdin:
  "category_install_menu e w = (r, w') \<Longrightarrow> length (stdin w') \<le> length (stdin w)"
proof (induction e w rule: category_install_menu.induct)
  case (1 e w)
  obtain c w1 where b: "category_install_body e w = (c, w1)"
    by (cases "category_install_body e w")
  from category_install_body_stdin [OF b] have le: "length (stdin w1) \<le> length (stdin w)" .
  show ?case
  proof (cases c)
    case Continue
    with b "1.prems" have "category_install_menu e w1 = (r, w')"
      by (simp add: category_install_menu.simps [of e w])
    with "1.IH" b Continue have "length (stdin w') \<le> length (stdin w1)"
      by simp
    with le show ?thesis by simp
  next
    case Break
    with b "1.prems" le show ?thesis
      by (simp add: category_install_menu.simps [of e w])
  next
    case (Raise x)
    with b "1.prems" le show ?thesis
      by (simp add: category_install_menu.simps [of e w])
  qed
qed

lemma category_individual_menu_stdin:
  "category_individual_menu e w = (r, w') \<Longrightarrow> length (stdin w') \<le> length (stdin w)"
proof (induction e w rule: category_individual_menu.induct)
  case (1 e w)
  obtain c w1 where b: "category_individual_body e w = (c, w1)"
    by (cases "category_individual_body e w")
  from category_individual_body_stdin [OF b] have le: "length (stdin w1) \<le> length (stdin w)" .
  show ?case
  proof (cases c)
    case Continue
    with b "1.prems" have "category_individual_menu e w1 = (r, w')"
      by (simp add: category_individual_menu.simps [of e w])
    with "1.IH" b Continue have "length (stdin w') \<le> length (stdin w1)"
      by simp
    with le show ?thesis by simp
  next
    case Break
    with b "1.prems" le show ?thesis
      by (simp add: category_individual_menu.simps [of e w])
  next
    case (Raise x)
    with b "1.prems" le show ?thesis
      by (simp add: category_individual_menu.simps [of e w])
  qed
qed

subsection \<open>The main menu\<close>

definition display_menu :: "world \<Rightarrow> world" where
  "display_menu w = w\<lparr>stdout := stdout w @ [MenuText]\<rparr>"

text \<open>\<open>all_libs\<close>: the names of every category, gathered by \<open>update\<close>.\<close>

definition all_libs :: "string set" where
  "all_libs = foldl (\<lambda>acc items. acc \<union> set (map fst items)) {} (map snd libraries)"

definition run_body :: "env \<Rightarrow> world \<Rightarrow> ctl \<times> world" where
  "run_body e w =
     (case py_input (CHR 0x0A # ''Enter your choice (0-3): '') (display_menu w) of
        (Inl x, w1) \<Rightarrow> (Raise x, w1)
      | (Inr choice, w1) \<Rightarrow>
          if choice = ''0'' then (Break, print ''Exiting...'' w1)
          else if choice = ''1'' then
            (case calculate_size all_libs of
               Inl x \<Rightarrow> (Raise x, w1)
             | Inr total_size \<Rightarrow>
                 (case py_input (CHR 0x0A # ''Install all libraries? Total size: '' @ total_size
                                   @ '' (y/n): '') w1 of
                    (Inl x, w2) \<Rightarrow> (Raise x, w2)
                  | (Inr answer, w2) \<Rightarrow>
                      if py_lower answer = ''y''
                      then (Continue, install_libraries e all_libs w2)
                      else (Continue, w2)))
          else if choice = ''2'' then
            (case category_install_menu e w1 of
               (Some x, w2) \<Rightarrow> (Raise x, w2)
             | (None, w2) \<Rightarrow> (Continue, w2))
          else if choice = ''3'' then
            (case category_individual_menu e w1 of
               (Some x, w2) \<Rightarrow> (Raise x, w2)
             | (None, w2) \<Rightarrow> (Continue, w2))
          else (Continue, w1))"

lemma run_body_reads:
  "run_body e w = (Continue, w') \<Longrightarrow> length (stdin w') < length (stdin w)"
  by (auto simp: run_body_def display_menu_def
      split: option.splits prod.splits sum.splits if_splits
      dest!: py_input_Inr py_input_Inl category_install_menu_stdin category_individual_menu_stdin)

text \<open>
  \<open>run\<close>: \<open>None\<close> when the loop was left by its \<open>break\<close>, \<open>Some x\<close> when the exception
  \<open>x\<close> left it; \<open>main\<close> catches that exception, prints it and returns.
\<close>

function run :: "env \<Rightarrow> world \<Rightarrow> exn option \<times> world" where
  "run e w =
     (case run_body e w of
        (Continue, w') \<Rightarrow> run e w'
      | (Break, w') \<Rightarrow> (None, w')
      | (Raise x, w') \<Rightarrow> (Some x, w'))"
  by pat_completeness auto
termination
  by (relation "measure (\<lambda>(e, w). length (stdin w))")
    (auto dest: run_body_reads [OF sym])

declare run.simps [simp del]

section \<open>The size calculator in the words of the specification\<close>

text \<open>
  The specification describes the calculation on its own terms: strip a leading
  approximation marker, read the number, multiply by 1024 when the unit is gigabytes,
  sum over the selected entries. These definitions follow that wording; the theorems
  below compare them with \<open>calculate_size\<close>.
\<close>

definition strip_marker :: "string \<Rightarrow> string" where
  "strip_marker s = (if starts_with s ''~'' then drop 1 s else s)"

definition spec_size_mb :: "string \<Rightarrow> rat" where
  "spec_size_mb sz =
     (let body = strip_marker sz;
          number = takeWhile is_digit body;
          unit = dropWhile is_digit body
      in if unit = ''GB'' then of_nat (digits_val number) * 1024 else of_nat (digits_val number))"

definition spec_total_mb :: "string set \<Rightarrow> rat" where
  "spec_total_mb S =
     sum_list (map (\<lambda>(lib, sz). spec_size_mb sz) (filter (\<lambda>(lib, sz). lib \<in> S) catalog_entries))"

definition well_formed_size :: "string \<Rightarrow> bool" where
  "well_formed_size sz =
     (starts_with sz ''~'' \<and>
      takeWhile is_digit (drop 1 sz) \<noteq> [] \<and>
      (dropWhile is_digit (drop 1 sz) = ''GB'' \<or> dropWhile is_digit (drop 1 sz) = ''MB''))"

text \<open>
  The rendering, read back from the text. A whole number of megabytes is the marker, a
  decimal numeral without leading zeros, and \<open>MB\<close>; gigabytes with one decimal place
  are the marker, such a numeral, a point, one digit, and \<open>GB\<close>, read as a number of
  tenths. The tenths rendered for a value are the nearest ones, the even ones on a tie
  (the rounding of Python's \<open>.1f\<close>).
\<close>

definition is_decimal :: "string \<Rightarrow> bool" where
  "is_decimal ds = (ds \<noteq> [] \<and> list_all is_digit ds \<and> (ds = ''0'' \<or> hd ds \<noteq> CHR ''0''))"

definition read_mb :: "string \<Rightarrow> nat option" where
  "read_mb s =
     (let number = takeWhile is_digit (drop 1 s);
          unit = dropWhile is_digit (drop 1 s)
      in if starts_with s ''~'' \<and> is_decimal number \<and> unit = ''MB''
         then Some (digits_val number) else None)"

definition read_gb_tenths :: "string \<Rightarrow> nat option" where
  "read_gb_tenths s =
     (let whole = takeWhile is_digit (drop 1 s);
          rest = dropWhile is_digit (drop 1 s)
      in if starts_with s ''~'' \<and> is_decimal whole \<and> length rest = 4
            \<and> take 1 rest = ''.'' \<and> is_digit (rest ! 1) \<and> drop 2 rest = ''GB''
         then Some (10 * digits_val whole + digit_val (rest ! 1)) else None)"

definition nearest_tenths :: "rat \<Rightarrow> nat \<Rightarrow> bool" where
  "nearest_tenths x n =
     (\<bar>of_nat n / 10 - x\<bar> < 1 / 20 \<or> (\<bar>of_nat n / 10 - x\<bar> = 1 / 20 \<and> even n))"

section \<open>Example environments\<close>

text \<open>
  Concrete surroundings at which the theorems are evaluated: an iteration order for sets
  of catalog names (the order of the catalog), pip outcomes in which one named package
  fails, and a world with given input lines and nothing printed, installed or logged.
\<close>

definition catalog_order :: "string set \<Rightarrow> string list" where
  "catalog_order S = filter (\<lambda>lib. lib \<in> S) (map fst catalog_entries)"

definition torch_fails :: "string list \<Rightarrow> string \<Rightarrow> pip_result" where
  "torch_fails history lib =
     (if lib = ''torch'' then CalledProcessError ''non-zero exit status 1'' else Installed)"

definition colorama_fails :: "string list \<Rightarrow> string \<Rightarrow> pip_result" where
  "colorama_fails history lib =
     (if lib = ''colorama'' then CalledProcessError ''non-zero exit status 1'' else Installed)"

definition example_env :: "(string list \<Rightarrow> string \<Rightarrow> pip_result) \<Rightarrow> env" where
  "example_env p = \<lparr>pip = p, set_iter = catalog_order, max_str_digits = 4300\<rparr>"

definition start :: "string list \<Rightarrow> world" where
  "start lines = \<lparr>stdin = lines, stdout = [], pip_calls = [], log_file = []\<rparr>"

text \<open>What \<open>install_requirements\<close> prints after one pip invocation, by its outcome.\<close>

definition failure_report :: "string \<Rightarrow> pip_result \<Rightarrow> console list" where
  "failure_report package r =
     (case r of
        Installed \<Rightarrow> []
      | CalledProcessError msg \<Rightarrow> [Printed (''Error installing '' @ package @ '': '' @ msg)]
      | OtherException msg \<Rightarrow> [Printed (''Error installing '' @ package @ '': '' @ msg)])"

section \<open>Properties of the size calculator\<close>

lemma catalog_sizes_parse:
  "list_all (\<lambda>(lib, sz). size_mb sz = Inr (spec_size_mb sz)) catalog_entries"
  by code_simp

lemma catalog_sizes_well_formed:
  "list_all well_formed_size (map snd catalog_entries)"
  by code_simp

lemma sum_category_parsed:
  "list_all (\<lambda>(lib, sz). size_mb sz = Inr (f sz)) items \<Longrightarrow>
   sum_category S items t =
     Inr (t + sum_list (map (\<lambda>(lib, sz). f sz) (filter (\<lambda>(lib, sz). lib \<in> S) items)))"
  by (induction items arbitrary: t) (auto simp: add.assoc)

lemma sum_categories_parsed:
  "list_all (\<lambda>(lib, sz). size_mb sz = Inr (f sz)) (concat cats) \<Longrightarrow>
   sum_categories S cats t =
     Inr (t + sum_list (map (\<lambda>(lib, sz). f sz) (filter (\<lambda>(lib, sz). lib \<in> S) (concat cats))))"
  by (induction cats arbitrary: t) (auto simp: sum_category_parsed add.assoc)

lemma total_mb_spec:
  "sum_categories S (map snd libraries) 0 = Inr (spec_total_mb S)"
  using sum_categories_parsed [of spec_size_mb "map snd libraries" S 0] catalog_sizes_parse
  by (simp add: catalog_entries_def spec_total_mb_def)

subsection \<open>Decimal numerals and rounding\<close>

lemma is_digit_digit_char: "d < 10 \<Longrightarrow> is_digit (digit_char d)"
  by (simp add: is_digit_def digit_char_def)

lemma digit_val_digit_char: "d < 10 \<Longrightarrow> digit_val (digit_char d) = d"
  by (simp add: digit_val_def digit_char_def)

lemma digit_char_0: "digit_char 0 = CHR ''0''"
  by code_simp

lemma digit_val_0: "digit_val (CHR ''0'') = 0"
  by (simp add: digit_val_def)

lemma digits_val_snoc: "digits_val (ds @ [c]) = 10 * digits_val ds + digit_val c"
  by (simp add: digits_val_def)

lemma digits_val_single: "digits_val [c] = digit_val c"
  by (simp add: digits_val_def)

lemma show_nat_small: "n < 10 \<Longrightarrow> show_nat n = [digit_char n]"
  by (subst show_nat.simps) simp

lemma show_nat_large:
  "\<not> n < 10 \<Longrightarrow> show_nat n = show_nat (n div 10) @ [digit_char (n mod 10)]"
  by (subst show_nat.simps) simp

lemma show_nat_digits:
  "list_all is_digit (show_nat n) \<and> show_nat n \<noteq> [] \<and> digits_val (show_nat n) = n"
proof (induction n rule: show_nat.induct)
  case (1 n)
  show ?case
  proof (cases "n < 10")
    case True
    then show ?thesis
      by (simp add: show_nat_small is_digit_digit_char digits_val_single digit_val_digit_char)
  next
    case False
    with "1.IH" show ?thesis
      by (simp add: show_nat_large is_digit_digit_char digits_val_snoc digit_val_digit_char)
  qed
qed

lemma show_nat_canonical: "show_nat n = ''0'' \<or> hd (show_nat n) \<noteq> CHR ''0''"
proof (induction n rule: show_nat.induct)
  case (1 n)
  show ?case
  proof (cases "n < 10")
    case True
    show ?thesis
    proof (cases "n = 0")
      case True
      then show ?thesis
        by (simp add: show_nat_small digit_char_0)
    next
      case False
      have "digit_char n \<noteq> CHR ''0''"
      proof
        assume "digit_char n = CHR ''0''"
        then have "digit_val (digit_char n) = 0"
          by (simp add: digit_val_0)
        with \<open>n < 10\<close> False show False
          by (simp add: digit_val_digit_char)
      qed
      with \<open>n < 10\<close> show ?thesis
        by (simp add: show_nat_small)
    qed
  next
    case False
    have ne: "show_nat (n div 10) \<noteq> []"
      using show_nat_digits [of "n div 10"] by simp
    have "show_nat (n div 10) \<noteq> ''0''"
    proof
      assume z: "show_nat (n div 10) = ''0''"
      have "digits_val (show_nat (n div 10)) = n div 10"
        using show_nat_digits [of "n div 10"] by simp
      with z have "n div 10 = 0"
        by (simp add: digits_val_single digit_val_0)
      with False show False
        by simp
    qed
    with "1.IH" False have "hd (show_nat (n div 10)) \<noteq> CHR ''0''"
      by simp
    with ne False show ?thesis
      by (simp add: show_nat_large)
  qed
qed

lemma is_decimal_show_nat: "is_decimal (show_nat n)"
  using show_nat_digits [of n] show_nat_canonical [of n] by (simp add: is_decimal_def)

lemma digits_then_other:
  "list_all is_digit ds \<Longrightarrow> \<not> is_digit c \<Longrightarrow>
   takeWhile is_digit (ds @ c # rest) = ds \<and> dropWhile is_digit (ds @ c # rest) = c # rest"
  by (induction ds) simp_all

lemma not_digit_M: "\<not> is_digit (CHR ''M'')"
  by (simp add: is_digit_def)

lemma not_digit_dot: "\<not> is_digit (CHR ''.'')"
  by (simp add: is_digit_def)

lemma read_mb_show_nat: "read_mb (''~'' @ show_nat n @ ''MB'') = Some n"
  using digits_then_other [of "show_nat n" "CHR ''M''" "''B''"] show_nat_digits [of n]
    is_decimal_show_nat [of n]
  by (simp add: read_mb_def starts_with_def not_digit_M)

lemma read_gb_tenths_show_nat:
  "b < 10 \<Longrightarrow> read_gb_tenths (''~'' @ show_nat a @ ''.'' @ show_nat b @ ''GB'') = Some (10 * a + b)"
  using digits_then_other [of "show_nat a" "CHR ''.''" "digit_char b # ''GB''"]
    show_nat_digits [of a] is_decimal_show_nat [of a]
  by (simp add: read_gb_tenths_def starts_with_def not_digit_dot show_nat_small
      is_digit_digit_char digit_val_digit_char)

lemma round_half_even_near: "\<bar>of_int (round_half_even x) - x\<bar> \<le> 1 / 2"
proof -
  have "of_int \<lfloor>x\<rfloor> \<le> x" and "x < of_int \<lfloor>x\<rfloor> + 1"
    by linarith+
  then show ?thesis
    by (auto simp: round_half_even_def Let_def)
qed

lemma round_half_even_tie:
  "\<bar>of_int (round_half_even x) - x\<bar> = 1 / 2 \<Longrightarrow> even (round_half_even x)"
proof -
  have "of_int \<lfloor>x\<rfloor> \<le> x" and "x < of_int \<lfloor>x\<rfloor> + 1"
    by linarith+
  then show "\<bar>of_int (round_half_even x) - x\<bar> = 1 / 2 \<Longrightarrow> even (round_half_even x)"
    by (auto simp: round_half_even_def Let_def split: if_splits)
qed

lemma round_half_even_nonneg: "0 \<le> x \<Longrightarrow> 0 \<le> round_half_even x"
proof -
  assume "0 \<le> x"
  then have "0 \<le> \<lfloor>x\<rfloor>"
    by simp
  then show ?thesis
    by (auto simp: round_half_even_def Let_def)
qed

lemma round_half_even_of_nat: "round_half_even (of_nat k) = int k"
  by (simp add: round_half_even_def Let_def)

lemma format_0f_reads: "read_mb (''~'' @ format_0f (of_nat k) @ ''MB'') = Some k"
  using read_mb_show_nat [of k] by (simp add: format_0f_def round_half_even_of_nat)

lemma format_1f_reads:
  assumes "0 \<le> x"
  shows "\<exists>n. read_gb_tenths (''~'' @ format_1f x @ ''GB'') = Some n \<and> nearest_tenths x n"
proof -
  define i where "i = round_half_even (x * 10)"
  define n where "n = nat i"
  from assms have "0 \<le> i"
    unfolding i_def by (intro round_half_even_nonneg) simp
  then have n: "of_nat n = (of_int i :: rat)" and ev: "even n = even i"
    by (simp_all add: n_def even_nat_iff)
  have "read_gb_tenths (''~'' @ format_1f x @ ''GB'') = Some (10 * (n div 10) + n mod 10)"
    unfolding format_1f_def Let_def i_def [symmetric] n_def [symmetric]
    using read_gb_tenths_show_nat [of "n mod 10" "n div 10"] by simp
  then have r: "read_gb_tenths (''~'' @ format_1f x @ ''GB'') = Some n"
    by simp
  have d: "\<bar>of_nat n / 10 - x\<bar> = \<bar>of_int i - x * 10\<bar> / 10"
    by (simp add: n field_simps abs_if)
  from round_half_even_near [of "x * 10"] have near: "\<bar>of_int i - x * 10\<bar> \<le> 1 / 2"
    by (simp add: i_def)
  have "nearest_tenths x n"
  proof (cases "\<bar>of_int i - x * 10\<bar> = 1 / 2")
    case True
    with round_half_even_tie [of "x * 10"] have "even i"
      by (simp add: i_def)
    with True d ev show ?thesis
      by (simp add: nearest_tenths_def)
  next
    case False
    with near have "\<bar>of_int i - x * 10\<bar> < 1 / 2"
      by simp
    with d show ?thesis
      by (simp add: nearest_tenths_def)
  qed
  with r show ?thesis
    by blast
qed

lemma spec_size_mb_nat: "\<exists>k. spec_size_mb sz = of_nat k"
proof -
  have "of_nat a * 1024 = (of_nat (a * 1024) :: rat)" for a
    by simp
  then show ?thesis
    unfolding spec_size_mb_def Let_def by (metis (full_types))
qed

lemma sum_list_nat:
  "(\<And>x. \<exists>k. f x = (of_nat k :: rat)) \<Longrightarrow> \<exists>k. sum_list (map f xs) = of_nat k"
proof (induction xs)
  case Nil
  show ?case by (simp add: exI [of _ 0])
next
  case (Cons x xs)
  then obtain a b where "f x = of_nat a" and "sum_list (map f xs) = of_nat b"
    by metis
  then have "sum_list (map f (x # xs)) = of_nat (a + b)"
    by simp
  then show ?case by blast
qed

lemma spec_total_mb_nat: "\<exists>k. spec_total_mb S = of_nat k"
  unfolding spec_total_mb_def
  by (rule sum_list_nat) (simp add: split_def spec_size_mb_nat)

lemma digit_char_digit_val: "is_digit c \<Longrightarrow> digit_char (digit_val c) = c"
  by (simp add: is_digit_def digit_char_def digit_val_def)

lemma digit_val_less: "is_digit c \<Longrightarrow> digit_val c < 10"
  by (auto simp: is_digit_def digit_val_def)

lemma show_nat_digits_val: "is_decimal ds \<Longrightarrow> show_nat (digits_val ds) = ds"
proof (induction ds rule: rev_induct)
  case Nil
  then show ?case
    by (simp add: is_decimal_def)
next
  case (snoc c xs)
  from snoc.prems have c: "is_digit c" and xs: "list_all is_digit xs"
    by (simp_all add: is_decimal_def)
  show ?case
  proof (cases "xs = []")
    case True
    with c show ?thesis
      by (simp add: digits_val_single show_nat_small digit_val_less digit_char_digit_val)
  next
    case False
    with snoc.prems have h: "hd xs \<noteq> CHR ''0''"
      by (auto simp: is_decimal_def)
    with False xs have "is_decimal xs"
      by (simp add: is_decimal_def)
    with snoc.IH have ih: "show_nat (digits_val xs) = xs"
      by simp
    have "digits_val xs \<noteq> 0"
    proof
      assume "digits_val xs = 0"
      with ih have "xs = ''0''"
        by (simp add: show_nat_small digit_char_0)
      with h show False
        by simp
    qed
    then have big: "\<not> 10 * digits_val xs + digit_val c < 10"
      by simp
    from digit_val_less [OF c]
    have "(10 * digits_val xs + digit_val c) div 10 = digits_val xs"
      and "(10 * digits_val xs + digit_val c) mod 10 = digit_val c"
      by simp_all
    with ih c show ?thesis
      by (simp add: digits_val_snoc show_nat_large [OF big] digit_char_digit_val)
  qed
qed

lemma read_mb_text: "read_mb r = Some n \<Longrightarrow> r = ''~'' @ show_nat n @ ''MB''"
proof -
  assume a: "read_mb r = Some n"
  define number where "number = takeWhile is_digit (drop 1 r)"
  from a have s: "take 1 r = ''~''" and d: "is_decimal number"
    and u: "dropWhile is_digit (drop 1 r) = ''MB''" and n: "n = digits_val number"
    by (auto simp: read_mb_def Let_def starts_with_def number_def split: if_splits)
  have e: "drop 1 r = number @ dropWhile is_digit (drop 1 r)"
    unfolding number_def by (rule takeWhile_dropWhile_id [symmetric])
  note e [unfolded u]
  with s have "r = ''~'' @ number @ ''MB''"
    using append_take_drop_id [of 1 r] by simp
  with show_nat_digits_val [OF d] n show ?thesis
    by simp
qed

lemma read_gb_tenths_text:
  "read_gb_tenths r = Some n \<Longrightarrow>
   r = ''~'' @ show_nat (n div 10) @ ''.'' @ show_nat (n mod 10) @ ''GB''"
proof -
  assume a: "read_gb_tenths r = Some n"
  define whole where "whole = takeWhile is_digit (drop 1 r)"
  define rest where "rest = dropWhile is_digit (drop 1 r)"
  from a have s: "take 1 r = ''~''" and d: "is_decimal whole" and l: "length rest = 4"
    and p: "take 1 rest = ''.''" and t: "is_digit (rest ! 1)" and g: "drop 2 rest = ''GB''"
    and n: "n = 10 * digits_val whole + digit_val (rest ! 1)"
    by (auto simp: read_gb_tenths_def Let_def starts_with_def whole_def rest_def split: if_splits)
  from l obtain a b c e where r4: "rest = [a, b, c, e]"
    by (auto simp: numeral_eq_Suc length_Suc_conv)
  with p g have rest: "rest = ''.'' @ [rest ! 1] @ ''GB''"
    by simp
  have "drop 1 r = whole @ rest"
    unfolding whole_def rest_def by (rule takeWhile_dropWhile_id [symmetric])
  with s have r: "r = ''~'' @ whole @ rest"
    using append_take_drop_id [of 1 r] by simp
  from digit_val_less [OF t] n have "n div 10 = digits_val whole" and "n mod 10 = digit_val (rest ! 1)"
    by simp_all
  with show_nat_digits_val [OF d] t digit_val_less [OF t]
  have "show_nat (n div 10) = whole" and "show_nat (n mod 10) = [rest ! 1]"
    by (simp_all add: show_nat_small digit_char_digit_val)
  with r rest show ?thesis
    by simp
qed

lemma nearest_tenths_unique:
  assumes "nearest_tenths x n" and "nearest_tenths x m"
  shows "n = m"
proof (rule ccontr)
  assume ne: "n \<noteq> m"
  from assms have bn: "\<bar>of_nat n / 10 - x\<bar> \<le> 1 / 20" and bm: "\<bar>of_nat m / 10 - x\<bar> \<le> 1 / 20"
    by (auto simp: nearest_tenths_def)
  then have "\<bar>(of_nat n :: rat) - of_nat m\<bar> \<le> 1"
    by linarith
  then have "(of_nat n :: rat) \<le> of_nat (m + 1)" and "(of_nat m :: rat) \<le> of_nat (n + 1)"
    by simp_all
  then have "n \<le> m + 1" and "m \<le> n + 1"
    by (simp_all only: of_nat_le_iff)
  with ne consider "n = m + 1" | "m = n + 1"
    by linarith
  then show False
  proof cases
    case 1
    then have "(of_nat n :: rat) = of_nat m + 1"
      by simp
    with bn bm have "\<bar>of_nat n / 10 - x\<bar> = 1 / 20" and "\<bar>of_nat m / 10 - x\<bar> = 1 / 20"
      by linarith+
    with assms have "even n" and "even m"
      by (auto simp: nearest_tenths_def)
    with 1 show False
      by simp
  next
    case 2
    then have "(of_nat m :: rat) = of_nat n + 1"
      by simp
    with bn bm have "\<bar>of_nat n / 10 - x\<bar> = 1 / 20" and "\<bar>of_nat m / 10 - x\<bar> = 1 / 20"
      by linarith+
    with assms have "even n" and "even m"
      by (auto simp: nearest_tenths_def)
    with 2 show False
      by simp
  qed
qed

text \<open>
  Claim C5. For every set \<open>S\<close> of library names, the sum is taken over the catalog
  entries whose name is in \<open>S\<close>, of the megabytes of each size string as the
  specification reads it (marker stripped, gigabytes times 1024, megabytes as they
  are). \<open>calculate_size S\<close> returns the string \<open>r\<close> exactly when, the sum exceeding
  1024, \<open>r\<close> is a gigabyte text with one decimal place whose tenths are the nearest to
  the sum divided by 1024, and otherwise \<open>r\<close> is the megabyte text of the sum as a whole
  number. The selection of spacy alone sums to exactly 1024 and is rendered in
  megabytes.
\<close>

theorem calculate_size_spec:
  "(calculate_size S = Inr r) =
     (if 1024 < spec_total_mb S
      then \<exists>n. read_gb_tenths r = Some n \<and> nearest_tenths (spec_total_mb S / 1024) n
      else \<exists>n. read_mb r = Some n \<and> of_nat n = spec_total_mb S)
   \<and> spec_total_mb {''spacy''} = 1024
   \<and> calculate_size {''spacy''} = Inr ''~1024MB''"
proof -
  obtain k where k: "spec_total_mb S = of_nat k"
    using spec_total_mb_nat by blast
  have c: "calculate_size S =
     Inr (if 1024 < spec_total_mb S
          then ''~'' @ format_1f (spec_total_mb S / 1024) @ ''GB''
          else ''~'' @ format_0f (spec_total_mb S) @ ''MB'')"
    by (simp add: calculate_size_def total_mb_spec)
  have "(calculate_size S = Inr r) =
     (if 1024 < spec_total_mb S
      then \<exists>n. read_gb_tenths r = Some n \<and> nearest_tenths (spec_total_mb S / 1024) n
      else \<exists>n. read_mb r = Some n \<and> of_nat n = spec_total_mb S)"
  proof (cases "1024 < spec_total_mb S")
    case True
    then have "0 \<le> spec_total_mb S / 1024"
      by simp
    from format_1f_reads [OF this] obtain n0 where
      r0: "read_gb_tenths (''~'' @ format_1f (spec_total_mb S / 1024) @ ''GB'') = Some n0"
      and n0: "nearest_tenths (spec_total_mb S / 1024) n0"
      by blast
    have "r = ''~'' @ format_1f (spec_total_mb S / 1024) @ ''GB''"
      if "read_gb_tenths r = Some n" and "nearest_tenths (spec_total_mb S / 1024) n" for n
    proof -
      from that(2) n0 have "n = n0"
        by (rule nearest_tenths_unique)
      with that(1) read_gb_tenths_text [of r n0] read_gb_tenths_text [OF r0] show ?thesis
        by simp
    qed
    with r0 n0 c True show ?thesis
      by auto
  next
    case False
    have r0: "read_mb (''~'' @ format_0f (spec_total_mb S) @ ''MB'') = Some k"
      using format_0f_reads [of k] k by simp
    have "r = ''~'' @ format_0f (spec_total_mb S) @ ''MB''"
      if "read_mb r = Some n" and "of_nat n = spec_total_mb S" for n
    proof -
      from that(2) k have "n = k"
        by simp
      with that(1) read_mb_text [of r k] read_mb_text [OF r0] show ?thesis
        by simp
    qed
    with r0 k c False show ?thesis
      by auto
  qed
  moreover have "spec_total_mb {''spacy''} = 1024"
    by code_simp
  moreover have "calculate_size {''spacy''} = Inr ''~1024MB''"
    by code_simp
  ultimately show ?thesis
    by blast
qed

theorem calculate_size_spec_witness:
  "spec_total_mb {''jax'', ''nltk'', ''keras'', ''bokeh''} = 1280
   \<and> calculate_size {''jax'', ''nltk'', ''keras'', ''bokeh''} = Inr ''~1.2GB''
   \<and> (\<exists>n. read_gb_tenths ''~1.2GB'' = Some n \<and> nearest_tenths (1280 / 1024) n)
   \<and> calculate_size {''jax'', ''nltk'', ''keras'', ''bokeh''} \<noteq> Inr ''~1.3GB''"
proof -
  have t: "spec_total_mb {''jax'', ''nltk'', ''keras'', ''bokeh''} = 1280"
    by code_simp
  have r: "calculate_size {''jax'', ''nltk'', ''keras'', ''bokeh''} = Inr ''~1.2GB''"
    by code_simp
  from calculate_size_spec [where S = "{''jax'', ''nltk'', ''keras'', ''bokeh''}" and r = "''~1.2GB''"] t r
  show ?thesis
    by simp
qed

text \<open>
  Claim C6. The catalog holds tensorflow at \<open>~2GB\<close> and scikit-learn at \<open>~300MB\<close>;
  for the two together the sum is 2348 megabytes and \<open>calculate_size\<close> returns
  \<open>~2.3GB\<close>.
\<close>

theorem calculate_size_example:
  "map_of catalog_entries ''tensorflow'' = Some ''~2GB''
   \<and> map_of catalog_entries ''scikit-learn'' = Some ''~300MB''
   \<and> sum_categories {''tensorflow'', ''scikit-learn''} (map snd libraries) 0 = Inr 2348
   \<and> calculate_size {''tensorflow'', ''scikit-learn''} = Inr ''~2.3GB''"
  by code_simp

lemma sum_category_inter:
  "fst ` set items \<subseteq> N \<Longrightarrow> sum_category (S \<inter> N) items t = sum_category S items t"
  by (induction items arbitrary: t) (auto split: sum.splits)

lemma sum_categories_inter:
  "fst ` set (concat cats) \<subseteq> N \<Longrightarrow> sum_categories (S \<inter> N) cats t = sum_categories S cats t"
  by (induction cats arbitrary: t) (auto simp: sum_category_inter image_Un split: sum.splits)

text \<open>
  Claim C7. For every set \<open>S\<close> of strings, \<open>calculate_size S\<close> is \<open>calculate_size\<close> of
  the catalog names in \<open>S\<close>; adding a name the catalog does not have changes nothing.
\<close>

theorem calculate_size_unknown_names:
  "calculate_size S = calculate_size (S \<inter> catalog_names)
   \<and> (lib \<notin> catalog_names \<longrightarrow> calculate_size (insert lib S) = calculate_size S)"
proof -
  have names: "fst ` set (concat (map snd libraries)) \<subseteq> catalog_names"
    by (simp add: catalog_names_def catalog_entries_def)
  have inter: "calculate_size (T \<inter> catalog_names) = calculate_size T" for T
    using sum_categories_inter [OF names, of T 0] by (simp add: calculate_size_def)
  have "calculate_size (insert lib S) = calculate_size S" if "lib \<notin> catalog_names"
  proof -
    from that have "insert lib S \<inter> catalog_names = S \<inter> catalog_names"
      by auto
    with inter [of "insert lib S"] inter [of S] show ?thesis
      by simp
  qed
  with inter [of S] show ?thesis
    by simp
qed

theorem calculate_size_unknown_names_witness:
  "''numpy'' \<notin> catalog_names
   \<and> calculate_size (insert ''numpy'' {''keras''}) = calculate_size {''keras''}
   \<and> calculate_size {''keras''} = Inr ''~100MB''"
proof -
  have n: "''numpy'' \<notin> catalog_names"
    by code_simp
  have k: "calculate_size {''keras''} = Inr ''~100MB''"
    by code_simp
  from calculate_size_unknown_names [of "{''keras''}" "''numpy''"] n k show ?thesis
    by simp
qed

text \<open>
  Claim C10. \<open>calculate_size\<close> returns a string for every set of names: the only
  strings it parses are the catalog's size strings, each a marker, a number and a unit
  GB or MB, and each of them parses.
\<close>

theorem calculate_size_total:
  "(\<exists>r. calculate_size S = Inr r)
   \<and> (\<forall>sz \<in> set (map snd catalog_entries). well_formed_size sz \<and> (\<exists>mb. size_mb sz = Inr mb))"
proof -
  have "\<exists>r. calculate_size S = Inr r"
    by (simp add: calculate_size_def total_mb_spec)
  moreover have "\<forall>sz \<in> set (map snd catalog_entries). well_formed_size sz"
    using catalog_sizes_well_formed by (simp add: list_all_iff)
  moreover have "\<forall>sz \<in> set (map snd catalog_entries). \<exists>mb. size_mb sz = Inr mb"
    using catalog_sizes_parse by (auto simp: list_all_iff)
  ultimately show ?thesis
    by blast
qed

theorem calculate_size_total_witness:
  "(\<exists>r. calculate_size {''torch'', ''no-such-library''} = Inr r)
   \<and> ''~4GB'' \<in> set (map snd catalog_entries)
   \<and> well_formed_size ''~4GB''
   \<and> (\<exists>mb. size_mb ''~4GB'' = Inr mb)"
proof -
  have m: "''~4GB'' \<in> set (map snd catalog_entries)"
    by code_simp
  from calculate_size_total [of "{''torch'', ''no-such-library''}"] m show ?thesis
    by blast
qed

section \<open>Properties of the installer and of the setup script\<close>

lemma pip_calls_print [simp]: "pip_calls (print s w) = pip_calls w"
  by (simp add: print_def)

lemma log_file_print [simp]: "log_file (print s w) = log_file w"
  by (simp add: print_def)

lemma stdout_print [simp]: "stdout (print s w) = stdout w @ [Printed s]"
  by (simp add: print_def)

lemma pip_calls_install_one [simp]: "pip_calls (install_one e w lib) = pip_calls w @ [lib]"
  by (simp add: install_one_def Let_def split: pip_result.splits)

lemma log_file_install_one [simp]: "log_file (install_one e w lib) = log_file w"
  by (simp add: install_one_def Let_def split: pip_result.splits)

lemma install_libraries_pip_calls:
  "pip_calls (install_libraries e selected w) = pip_calls w @ set_iter e selected"
proof -
  have "pip_calls (foldl (install_one e) w xs) = pip_calls w @ xs" for xs
    by (induction xs arbitrary: w) simp_all
  then show ?thesis
    by (simp add: install_libraries_def)
qed

lemma install_libraries_log_file:
  "log_file (install_libraries e selected w) = log_file w"
proof -
  have "log_file (foldl (install_one e) w xs) = log_file w" for xs
    by (induction xs arbitrary: w) simp_all
  then show ?thesis
    by (simp add: install_libraries_def)
qed

lemma count_list_distinct:
  "distinct xs \<Longrightarrow> count_list xs x = (if x \<in> set xs then 1 else 0)"
  by (induction xs) auto

lemma install_libraries_once_each:
  assumes "set (set_iter e selected) = selected" and "distinct (set_iter e selected)"
  shows "count_list (drop (length (pip_calls w)) (pip_calls (install_libraries e selected w))) lib
           = (if lib \<in> selected then 1 else 0)"
  using assms by (simp add: install_libraries_pip_calls count_list_distinct)

text \<open>
  Claim C2. For every set of names the installer makes one pip invocation per name, in
  the order the set is iterated, and goes on after a failure
  (\<open>install_libraries_pip_calls\<close>, \<open>install_libraries_once_each\<close>); a failure is
  printed with its message. It is not logged: no call of the installer writes the log
  file (\<open>install_libraries_log_file\<close>). With three names, of which torch fails, the
  three invocations are made, the error is printed, and the log file stays empty.
\<close>

theorem install_three_one_fails:
  "install_libraries (example_env torch_fails) {''keras'', ''torch'', ''jax''} (start []) =
     \<lparr>stdin = [],
      stdout = [Printed (CHR 0x0A # ''Installing torch...''),
                Printed ''Error installing torch: non-zero exit status 1'',
                Printed (CHR 0x0A # ''Installing keras...''),
                Printed ''Successfully installed keras'',
                Printed (CHR 0x0A # ''Installing jax...''),
                Printed ''Successfully installed jax''],
      pip_calls = [''torch'', ''keras'', ''jax''],
      log_file = []\<rparr>"
  by code_simp

text \<open>
  Claim C9. \<open>install_requirements\<close> invokes pip exactly twice, for colorama and then for
  logging, whatever the outcomes; a failed invocation prints its error and the next
  package is still attempted.
\<close>

theorem install_requirements_attempts:
  "pip_calls (install_requirements e w) = pip_calls w @ [''colorama'', ''logging'']
   \<and> stdout (install_requirements e w) =
       stdout w
       @ [Printed ''Setting up PyLibPro...'', Printed (CHR 0x0A # ''Installing colorama...'')]
       @ failure_report ''colorama'' (pip e (pip_calls w) ''colorama'')
       @ [Printed (CHR 0x0A # ''Installing logging...'')]
       @ failure_report ''logging'' (pip e (pip_calls w @ [''colorama'']) ''logging'')
       @ [Printed (CHR 0x0A # ''Setup complete! Run '' @ [CHR 0x27] @ ''python lib-collect.py''
                    @ [CHR 0x27] @ '' to start'')]"
  by (cases "pip e (pip_calls w) ''colorama''";
      cases "pip e (pip_calls w @ [''colorama'']) ''logging''")
    (simp_all add: install_requirements_def install_requirement_def requirements_def
      failure_report_def Let_def)

theorem install_requirements_attempts_witness:
  "pip_calls (install_requirements (example_env colorama_fails) (start [])) = [''colorama'', ''logging'']
   \<and> stdout (install_requirements (example_env colorama_fails) (start [])) =
       [Printed ''Setting up PyLibPro...'',
        Printed (CHR 0x0A # ''Installing colorama...''),
        Printed ''Error installing colorama: non-zero exit status 1'',
        Printed (CHR 0x0A # ''Installing logging...''),
        Printed (CHR 0x0A # ''Setup complete! Run '' @ [CHR 0x27] @ ''python lib-collect.py''
                   @ [CHR 0x27] @ '' to start'')]"
  using install_requirements_attempts [where e = "example_env colorama_fails" and w = "start []"]
  by (simp add: start_def example_env_def colorama_fails_def failure_report_def)

section \<open>Properties of the interactive loop\<close>

text \<open>
  Claim C8. When the next input line at the main menu is \<open>0\<close>, the iteration prints the
  menu and \<open>Exiting...\<close> and breaks, \<open>run\<close> returns without an exception, and no pip
  invocation is added.
\<close>

theorem main_menu_exit:
  "run_body e (w\<lparr>stdin := ''0'' # rest\<rparr>) =
     (Break, w\<lparr>stdin := rest,
               stdout := stdout w @ [MenuText, Prompt (CHR 0x0A # ''Enter your choice (0-3): ''),
                                     Printed ''Exiting...'']\<rparr>)
   \<and> run e (w\<lparr>stdin := ''0'' # rest\<rparr>) =
     (None, w\<lparr>stdin := rest,
              stdout := stdout w @ [MenuText, Prompt (CHR 0x0A # ''Enter your choice (0-3): ''),
                                    Printed ''Exiting...'']\<rparr>)
   \<and> pip_calls (snd (run e (w\<lparr>stdin := ''0'' # rest\<rparr>))) = pip_calls w"
proof -
  have b: "run_body e (w\<lparr>stdin := ''0'' # rest\<rparr>) =
     (Break, w\<lparr>stdin := rest,
               stdout := stdout w @ [MenuText, Prompt (CHR 0x0A # ''Enter your choice (0-3): ''),
                                     Printed ''Exiting...'']\<rparr>)"
    by (simp add: run_body_def py_input_def display_menu_def print_def)
  then show ?thesis
    by (simp add: run.simps [of e "w\<lparr>stdin := ''0'' # rest\<rparr>"])
qed

theorem main_menu_exit_witness:
  "run (example_env torch_fails) (start [''0'', ''1'', ''y'']) =
     (None, \<lparr>stdin = [''1'', ''y''],
              stdout = [MenuText, Prompt (CHR 0x0A # ''Enter your choice (0-3): ''),
                        Printed ''Exiting...''],
              pip_calls = [], log_file = []\<rparr>)"
  using main_menu_exit [where e = "example_env torch_fails" and w = "start []" and rest = "[''1'', ''y'']"]
  by (simp add: start_def)

text \<open>
  The category key is computed before it is looked up, and nothing in the category
  loops catches what the computation raises: for every environment the answer \<open>4\<close>
  raises IndexError and the answer \<open>abc\<close> raises ValueError.
\<close>

lemma py_int_4: "py_int limit ''4'' = Some 4"
  by code_simp

lemma py_int_abc: "py_int limit ''abc'' = None"
  by code_simp

lemma select_category_4: "select_category e ''4'' = Inl IndexError"
  by (simp add: select_category_def py_int_4 py_index_def libraries_def)

lemma select_category_abc: "select_category e ''abc'' = Inl (ValueError ''abc'')"
  by (simp add: select_category_def py_int_abc)

text \<open>
  Claim C1. In the category menus an out-of-range or non-numeric answer is not
  re-prompted: under main-menu choice 2 the answer \<open>4\<close> raises IndexError, under choice 3
  the answer \<open>abc\<close> raises ValueError, and the exception leaves the category loop and
  \<open>run\<close> itself, the remaining input unread.
\<close>

theorem category_choice_invalid_raises:
  "run (example_env torch_fails) (start [''2'', ''4'', ''0'', ''0'']) =
     (Some IndexError,
      \<lparr>stdin = [''0'', ''0''],
       stdout = [MenuText, Prompt (CHR 0x0A # ''Enter your choice (0-3): ''),
                 CategoriesText, Prompt (CHR 0x0A # ''Select category (0-3): '')],
       pip_calls = [], log_file = []\<rparr>)
   \<and> run (example_env torch_fails) (start [''3'', ''abc'', ''0'', ''0'']) =
     (Some (ValueError ''abc''),
      \<lparr>stdin = [''0'', ''0''],
       stdout = [MenuText, Prompt (CHR 0x0A # ''Enter your choice (0-3): ''),
                 CategoriesText, Prompt (CHR 0x0A # ''Select category (0-3): '')],
       pip_calls = [], log_file = []\<rparr>)"
  by code_simp

text \<open>
  Claim C3. A run that installs keras from the library menu (choice 3, category 1,
  library 4, confirmed) and exits makes the pip invocation and prints its outcome, and
  the session log file has no line at the end: neither the attempt nor the outcome is
  logged.
\<close>

theorem run_install_leaves_log_empty:
  "run (example_env torch_fails) (start [''3'', ''1'', ''4'', ''y'', ''0'', ''0'', ''0'']) =
     (None,
      \<lparr>stdin = [],
       stdout = [MenuText, Prompt (CHR 0x0A # ''Enter your choice (0-3): ''),
                 CategoriesText, Prompt (CHR 0x0A # ''Select category (0-3): ''),
                 LibrariesText ''1_core_frameworks'',
                 Prompt (CHR 0x0A # ''Select library (0 to go back): ''),
                 Prompt (CHR 0x0A # ''Install keras? Size: ~100MB (y/n): ''),
                 Printed (CHR 0x0A # ''Installing keras...''),
                 Printed ''Successfully installed keras'',
                 LibrariesText ''1_core_frameworks'',
                 Prompt (CHR 0x0A # ''Select library (0 to go back): ''),
                 CategoriesText, Prompt (CHR 0x0A # ''Select category (0-3): ''),
                 MenuText, Prompt (CHR 0x0A # ''Enter your choice (0-3): ''),
                 Printed ''Exiting...''],
       pip_calls = [''keras''],
       log_file = []\<rparr>)"
  by code_simp

text \<open>
  Claim C4, as stated, at the answer \<open>99\<close> in the library menu of the visualization
  category (five libraries): the iteration prints the menu and the prompt and nothing
  else, so the answer is not reported; the loop goes round again and pip is not invoked.
\<close>

theorem library_choice_out_of_range_not_reported:
  "py_int 4300 ''99'' = Some 99
   \<and> map_option length (map_of libraries ''2_visualization'') = Some 5
   \<and> library_menu_body (example_env torch_fails) ''2_visualization'' (start [''99'', ''0'']) =
       (Continue,
        \<lparr>stdin = [''0''],
         stdout = [LibrariesText ''2_visualization'',
                   Prompt (CHR 0x0A # ''Select library (0 to go back): '')],
         pip_calls = [], log_file = []\<rparr>)
   \<and> Printed ''Invalid input'' \<notin>
       set (stdout (snd (library_menu_body (example_env torch_fails) ''2_visualization''
                           (start [''99'', ''0'']))))"
  by code_simp

text \<open>
  Claim C4, amended. In the library menu of a catalog category, for an answer other
  than \<open>0\<close>: text that \<open>int\<close> rejects is reported with \<open>Invalid input\<close>; a number with
  no corresponding library is passed over without a message. In both cases the
  iteration ends in \<open>Continue\<close>, so the loop goes on as the library menu of the same
  category, from a world in which only the input read and the output have changed: pip
  has not been invoked.
\<close>

theorem library_menu_invalid_choice:
  assumes "map_of libraries category = Some libs" and "lib_choice \<noteq> ''0''"
  shows
    "(py_int (max_str_digits e) lib_choice = None \<longrightarrow>
        library_menu_body e category (w\<lparr>stdin := lib_choice # rest\<rparr>) =
          (Continue,
           w\<lparr>stdin := rest,
             stdout := stdout w @ [LibrariesText category,
                                   Prompt (CHR 0x0A # ''Select library (0 to go back): ''),
                                   Printed ''Invalid input'']\<rparr>)
        \<and> library_menu e category (w\<lparr>stdin := lib_choice # rest\<rparr>) =
          library_menu e category
            (w\<lparr>stdin := rest,
               stdout := stdout w @ [LibrariesText category,
                                     Prompt (CHR 0x0A # ''Select library (0 to go back): ''),
                                     Printed ''Invalid input'']\<rparr>))
     \<and> (\<forall>n. py_int (max_str_digits e) lib_choice = Some n \<and> (n < 1 \<or> int (length libs) < n) \<longrightarrow>
        library_menu_body e category (w\<lparr>stdin := lib_choice # rest\<rparr>) =
          (Continue,
           w\<lparr>stdin := rest,
             stdout := stdout w @ [LibrariesText category,
                                   Prompt (CHR 0x0A # ''Select library (0 to go back): '')]\<rparr>)
        \<and> library_menu e category (w\<lparr>stdin := lib_choice # rest\<rparr>) =
          library_menu e category
            (w\<lparr>stdin := rest,
               stdout := stdout w @ [LibrariesText category,
                                     Prompt (CHR 0x0A # ''Select library (0 to go back): '')]\<rparr>))"
proof (intro conjI impI allI)
  assume none: "py_int (max_str_digits e) lib_choice = None"
  with assms show b: "library_menu_body e category (w\<lparr>stdin := lib_choice # rest\<rparr>) =
          (Continue,
           w\<lparr>stdin := rest,
             stdout := stdout w @ [LibrariesText category,
                                   Prompt (CHR 0x0A # ''Select library (0 to go back): ''),
                                   Printed ''Invalid input'']\<rparr>)"
    by (simp add: library_menu_body_def display_libraries_def py_input_def print_def)
  then show "library_menu e category (w\<lparr>stdin := lib_choice # rest\<rparr>) =
          library_menu e category
            (w\<lparr>stdin := rest,
               stdout := stdout w @ [LibrariesText category,
                                     Prompt (CHR 0x0A # ''Select library (0 to go back): ''),
                                     Printed ''Invalid input'']\<rparr>)"
    by (simp add: library_menu.simps [of e category "w\<lparr>stdin := lib_choice # rest\<rparr>"])
next
  fix n
  assume some: "py_int (max_str_digits e) lib_choice = Some n \<and> (n < 1 \<or> int (length libs) < n)"
  with assms show b: "library_menu_body e category (w\<lparr>stdin := lib_choice # rest\<rparr>) =
          (Continue,
           w\<lparr>stdin := rest,
             stdout := stdout w @ [LibrariesText category,
                                   Prompt (CHR 0x0A # ''Select library (0 to go back): '')]\<rparr>)"
    by (auto simp: library_menu_body_def display_libraries_def py_input_def Let_def)
  then show "library_menu e category (w\<lparr>stdin := lib_choice # rest\<rparr>) =
          library_menu e category
            (w\<lparr>stdin := rest,
               stdout := stdout w @ [LibrariesText category,
                                     Prompt (CHR 0x0A # ''Select library (0 to go back): '')]\<rparr>)"
    by (simp add: library_menu.simps [of e category "w\<lparr>stdin := lib_choice # rest\<rparr>"])
qed

theorem library_menu_invalid_choice_witness:
  "library_menu_body (example_env torch_fails) ''3_nlp'' (start [''abc'', ''x'']) =
     (Continue,
      \<lparr>stdin = [''x''],
       stdout = [LibrariesText ''3_nlp'',
                 Prompt (CHR 0x0A # ''Select library (0 to go back): ''),
                 Printed ''Invalid input''],
       pip_calls = [], log_file = []\<rparr>)
   \<and> library_menu_body (example_env torch_fails) ''3_nlp'' (start [''7'', ''x'']) =
     (Continue,
      \<lparr>stdin = [''x''],
       stdout = [LibrariesText ''3_nlp'',
                 Prompt (CHR 0x0A # ''Select library (0 to go back): '')],
       pip_calls = [], log_file = []\<rparr>)"
proof -
  have m: "map_of libraries ''3_nlp'' =
      Some [(''transformers'', ''~5GB''), (''spacy'', ''~1GB''), (''nltk'', ''~500MB''),
            (''gensim'', ''~200MB''), (''sentence-transformers'', ''~1GB'')]"
    by code_simp
  have a: "py_int (max_str_digits (example_env torch_fails)) ''abc'' = None"
    by code_simp
  have s: "py_int (max_str_digits (example_env torch_fails)) ''7'' = Some 7"
    by code_simp
  have na: "''abc'' \<noteq> ''0''" and ns: "''7'' \<noteq> ''0''"
    by simp_all
  from library_menu_invalid_choice [OF m na, where e = "example_env torch_fails"
      and w = "start []" and rest = "[''x'']"] a
  have "library_menu_body (example_env torch_fails) ''3_nlp'' (start [''abc'', ''x'']) =
     (Continue,
      \<lparr>stdin = [''x''],
       stdout = [LibrariesText ''3_nlp'',
                 Prompt (CHR 0x0A # ''Select library (0 to go back): ''),
                 Printed ''Invalid input''],
       pip_calls = [], log_file = []\<rparr>)"
    by (simp add: start_def)
  moreover from library_menu_invalid_choice [OF m ns, where e = "example_env torch_fails"
      and w = "start []" and rest = "[''x'']"] s
  have "library_menu_body (example_env torch_fails) ''3_nlp'' (start [''7'', ''x'']) =
     (Continue,
      \<lparr>stdin = [''x''],
       stdout = [LibrariesText ''3_nlp'',
                 Prompt (CHR 0x0A # ''Select library (0 to go back): '')],
       pip_calls = [], log_file = []\<rparr>)"
    by (simp add: start_def)
  ultimately show ?thesis
    by simp
qed

end
